theory Spec2Isabelle
  imports Complex_Main
begin

section \<open>The servers table\<close>

text \<open>
  A row of the \<open>servers\<close> table, with the columns the code reads and writes. The
  columns \<open>created_at\<close> and \<open>updated_at\<close> are left out: no function modelled here reads
  them. The column \<open>id\<close> is named \<open>id_server\<close>, since \<open>id\<close> is the identity function of HOL.
  JavaScript numbers that hold counters and identifiers are modelled as mathematical
  integers. A failure of the connection to the database is not modelled, and of the
  \<open>catch\<close> branches only that of \<open>createServer\<close> is (a value that does not fit its column).
\<close>

record server =
  id_server :: int
  ip :: string
  description :: "string option"
  max_activity_monitoring :: int
  cur_activity_monitoring :: int

text \<open>
  The table is the list of its rows, in the order \<open>findMany\<close> returns them.
  \<open>findUnique\<close> returns the row of a given key, \<open>update\<close> rewrites the rows of a given
  key and leaves the others as they are.
\<close>

definition findUnique_id :: "server list \<Rightarrow> int \<Rightarrow> server option" where
  "findUnique_id rows i = find (\<lambda>s. id_server s = i) rows"


definition update_cur :: "server list \<Rightarrow> int \<Rightarrow> int \<Rightarrow> server list" where
  "update_cur rows i v =
     map (\<lambda>s. if id_server s = i then s\<lparr>cur_activity_monitoring := v\<rparr> else s) rows"

section \<open>Server capacity helpers\<close>

record ServerCapacityInfo = server +
  availableCapacity :: int
  utilizationPercentage :: rat

record ServerSelectionOptions =
  requiredCapacity :: "int option"
  preferredUtilizationThreshold :: "int option"
  excludeServerIds :: "int list option"

text \<open>
  \<open>getServerCapacityInfo\<close>: every row, with its free capacity and its utilisation in
  percent. The quotient is exact here (a rational number); the source computes it in
  double precision.
\<close>

definition capacityInfo :: "server \<Rightarrow> ServerCapacityInfo" where
  "capacityInfo s =
     server.extend s
       (ServerCapacityInfo.fields
          (max_activity_monitoring s - cur_activity_monitoring s)
          (if max_activity_monitoring s > 0
           then (of_int (cur_activity_monitoring s) / of_int (max_activity_monitoring s)) * 100
           else 0))"

definition getServerCapacityInfo :: "server list \<Rightarrow> ServerCapacityInfo list" where
  "getServerCapacityInfo rows = map capacityInfo rows"

text \<open>
  The comparator handed to \<open>Array.prototype.sort\<close>: by utilisation, lowest first, then
  by free capacity, highest first.
\<close>

definition compareServers :: "ServerCapacityInfo \<Rightarrow> ServerCapacityInfo \<Rightarrow> rat" where
  "compareServers a b =
     (if utilizationPercentage a \<noteq> utilizationPercentage b
      then utilizationPercentage a - utilizationPercentage b
      else of_int (availableCapacity b - availableCapacity a))"

text \<open>
  \<open>Array.prototype.sort\<close> with a comparator is a stable sort: an insertion sort that puts
  an element before the first one it does not exceed.
\<close>

fun insert_by :: "('a \<Rightarrow> 'a \<Rightarrow> rat) \<Rightarrow> 'a \<Rightarrow> 'a list \<Rightarrow> 'a list" where
  "insert_by cmp x [] = [x]"
| "insert_by cmp x (y # ys) =
     (if cmp x y \<le> 0 then x # y # ys else y # insert_by cmp x ys)"

fun sort_by :: "('a \<Rightarrow> 'a \<Rightarrow> rat) \<Rightarrow> 'a list \<Rightarrow> 'a list" where
  "sort_by cmp [] = []"
| "sort_by cmp (x # xs) = insert_by cmp x (sort_by cmp xs)"

text \<open>The element at index 0 of an array; \<open>undefined\<close> (here \<open>None\<close>) when it is empty.\<close>

fun first_elem :: "'a list \<Rightarrow> 'a option" where
  "first_elem [] = None"
| "first_elem (x # xs) = Some x"

definition selectBestServer ::
  "server list \<Rightarrow> int \<Rightarrow> ServerSelectionOptions \<Rightarrow> ServerCapacityInfo option" where
  "selectBestServer rows typeAnalyticId options =
     (let required = (case requiredCapacity options of None \<Rightarrow> 1 | Some r \<Rightarrow> r);
          excluded = (case excludeServerIds options of None \<Rightarrow> [] | Some e \<Rightarrow> e);
          servers = getServerCapacityInfo rows;
          availableServers = filter (\<lambda>s. id_server s \<notin> set excluded) servers;
          serversWithCapacity =
            filter (\<lambda>s. availableCapacity s \<ge> required) availableServers
      in if length serversWithCapacity = 0 then None
         else if typeAnalyticId = 1 then
           (let activityMonitoringServers =
                  filter (\<lambda>s. max_activity_monitoring s > 0) serversWithCapacity
            in if length activityMonitoringServers = 0 then None
               else first_elem (sort_by compareServers activityMonitoringServers))
         else first_elem (sort_by compareServers serversWithCapacity))"

text \<open>
  The three helpers below read a row, decide, and write it back. They return the
  boolean of the source together with the table after the call. An omitted
  \<open>capacity\<close> argument (\<open>None\<close>) is 1.
\<close>

definition reserveServerCapacity ::
  "server list \<Rightarrow> int \<Rightarrow> int \<Rightarrow> int option \<Rightarrow> bool \<times> server list" where
  "reserveServerCapacity rows serverId typeAnalyticId capacity_arg =
     (let capacity = (case capacity_arg of None \<Rightarrow> 1 | Some c \<Rightarrow> c)
      in if typeAnalyticId = 1 then
           (case findUnique_id rows serverId of
              None \<Rightarrow> (False, rows)
            | Some server \<Rightarrow>
                if cur_activity_monitoring server + capacity > max_activity_monitoring server
                then (False, rows)
                else (True, update_cur rows serverId (cur_activity_monitoring server + capacity)))
         else (True, rows))"

definition releaseServerCapacity ::
  "server list \<Rightarrow> int \<Rightarrow> int \<Rightarrow> int option \<Rightarrow> bool \<times> server list" where
  "releaseServerCapacity rows serverId typeAnalyticId capacity_arg =
     (let capacity = (case capacity_arg of None \<Rightarrow> 1 | Some c \<Rightarrow> c)
      in if typeAnalyticId = 1 then
           (case findUnique_id rows serverId of
              None \<Rightarrow> (False, rows)
            | Some server \<Rightarrow>
                (let newCapacity = max 0 (cur_activity_monitoring server - capacity)
                 in (True, update_cur rows serverId newCapacity)))
         else (True, rows))"

definition checkServerCapacity :: "server list \<Rightarrow> int \<Rightarrow> int \<Rightarrow> int option \<Rightarrow> bool" where
  "checkServerCapacity rows serverId typeAnalyticId required_arg =
     (let required = (case required_arg of None \<Rightarrow> 1 | Some c \<Rightarrow> c)
      in case findUnique_id rows serverId of
           None \<Rightarrow> False
         | Some server \<Rightarrow>
             if typeAnalyticId = 1
             then cur_activity_monitoring server + required \<le> max_activity_monitoring server
             else True)"

section \<open>JavaScript strings and numbers\<close>

text \<open>
  A string is the sequence of the UTF-8 bytes of the JavaScript string. The white space
  that \<open>String.prototype.trim\<close> and \<open>parseInt\<close> strip is the \<open>WhiteSpace\<close> and
  \<open>LineTerminator\<close> of the language: U+0009 to U+000D, U+0020, U+00A0, U+1680, U+2000 to
  U+200A, U+2028, U+2029, U+202F, U+205F, U+3000 and U+FEFF, here in their encodings.
\<close>

definition whitespace_encodings :: "string list" where
  "whitespace_encodings =
     [[CHR 0x09], [CHR 0x0A], [CHR 0x0B], [CHR 0x0C], [CHR 0x0D], [CHR 0x20],
      [CHR 0xC2, CHR 0xA0],
      [CHR 0xE1, CHR 0x9A, CHR 0x80],
      [CHR 0xE2, CHR 0x80, CHR 0x80], [CHR 0xE2, CHR 0x80, CHR 0x81],
      [CHR 0xE2, CHR 0x80, CHR 0x82], [CHR 0xE2, CHR 0x80, CHR 0x83],
      [CHR 0xE2, CHR 0x80, CHR 0x84], [CHR 0xE2, CHR 0x80, CHR 0x85],
      [CHR 0xE2, CHR 0x80, CHR 0x86], [CHR 0xE2, CHR 0x80, CHR 0x87],
      [CHR 0xE2, CHR 0x80, CHR 0x88], [CHR 0xE2, CHR 0x80, CHR 0x89],
      [CHR 0xE2, CHR 0x80, CHR 0x8A],
      [CHR 0xE2, CHR 0x80, CHR 0xA8], [CHR 0xE2, CHR 0x80, CHR 0xA9],
      [CHR 0xE2, CHR 0x80, CHR 0xAF],
      [CHR 0xE2, CHR 0x81, CHR 0x9F],
      [CHR 0xE3, CHR 0x80, CHR 0x80],
      [CHR 0xEF, CHR 0xBB, CHR 0xBF]]"

text \<open>
  The length of the first of the given pieces that the string starts with, 0 when it
  starts with none; and the string without every such piece at its front.
\<close>

definition front_length :: "string list \<Rightarrow> string \<Rightarrow> nat" where
  "front_length ws s =
     (case find (\<lambda>w. w \<noteq> [] \<and> take (length w) s = w) ws of
        None \<Rightarrow> 0
      | Some w \<Rightarrow> length w)"

function strip_front :: "string list \<Rightarrow> string \<Rightarrow> string" where
  "strip_front ws s =
     (if front_length ws s = 0 then s else strip_front ws (drop (front_length ws s) s))"
  by pat_completeness auto
termination
proof (relation "measure (\<lambda>(ws, s). length s)")
  show "wf (measure (\<lambda>(ws :: string list, s :: string). length s))"
    by simp
next
  fix ws :: "string list" and s :: string
  assume a: "front_length ws s \<noteq> 0"
  then have "s \<noteq> []"
    by (auto simp: front_length_def find_Some_iff split: option.splits)
  with a show "((ws, drop (front_length ws s) s), (ws, s)) \<in> measure (\<lambda>(ws, s). length s)"
    by simp
qed

declare strip_front.simps [simp del]

text \<open>\<open>s.trim()\<close>: the white space at the front, then the white space at the end.\<close>

definition trim :: "string \<Rightarrow> string" where
  "trim s =
     rev (strip_front (map rev whitespace_encodings)
            (rev (strip_front whitespace_encodings s)))"

text \<open>\<open>s.split(d)\<close> for a one-character separator: the empty string gives one empty piece.\<close>

fun split_on :: "char \<Rightarrow> string \<Rightarrow> string list" where
  "split_on d [] = [[]]"
| "split_on d (c # cs) =
     (if c = d then [] # split_on d cs
      else (case split_on d cs of
              [] \<Rightarrow> [[c]]
            | w # ws \<Rightarrow> (c # w) # ws))"

text \<open>\<open>s.replace(pat, rep)\<close> for a string pattern: the first occurrence only.\<close>

fun replace_first :: "string \<Rightarrow> string \<Rightarrow> string \<Rightarrow> string" where
  "replace_first pat rep [] = (if pat = [] then rep else [])"
| "replace_first pat rep (c # cs) =
     (if take (length pat) (c # cs) = pat then rep @ drop (length pat) (c # cs)
      else c # replace_first pat rep cs)"

text \<open>
  \<open>a || b\<close> on values that are strings or \<open>undefined\<close>: \<open>undefined\<close> and the empty string
  are falsy. \<open>!a\<close> is \<open>falsy a\<close>.
\<close>

definition falsy :: "string option \<Rightarrow> bool" where
  "falsy a = (case a of None \<Rightarrow> True | Some s \<Rightarrow> s = [])"

definition or_str :: "string option \<Rightarrow> string option \<Rightarrow> string option" where
  "or_str a b = (if falsy a then b else a)"

text \<open>
  \<open>parseInt(s)\<close> with no radix: leading white space, an optional sign, an optional
  \<open>0x\<close> prefix, then the longest run of digits; \<open>NaN\<close> is \<open>None\<close>. \<open>parseInt(undefined)\<close>
  is \<open>NaN\<close>. The result is the exact integer (the source rounds beyond \<open>2^53\<close>).
\<close>

fun index_of :: "'a \<Rightarrow> 'a list \<Rightarrow> nat option" where
  "index_of x [] = None"
| "index_of x (y # ys) =
     (if x = y then Some 0 else map_option Suc (index_of x ys))"

definition digit_value :: "nat \<Rightarrow> char \<Rightarrow> nat option" where
  "digit_value radix c =
     (case index_of c ''0123456789abcdef'' of
        Some v \<Rightarrow> if v < radix then Some v else None
      | None \<Rightarrow>
          (case index_of c ''ABCDEF'' of
             Some v \<Rightarrow> if v + 10 < radix then Some (v + 10) else None
           | None \<Rightarrow> None))"

definition digits_value :: "nat \<Rightarrow> string \<Rightarrow> nat" where
  "digits_value radix ds =
     foldl (\<lambda>acc c. acc * radix + (case digit_value radix c of None \<Rightarrow> 0 | Some v \<Rightarrow> v))
       0 ds"

definition parseInt :: "string option \<Rightarrow> int option" where
  "parseInt arg =
     (case arg of
        None \<Rightarrow> None
      | Some str \<Rightarrow>
          (let s = strip_front whitespace_encodings str;
               negative = (take 1 s = ''-'');
               s1 = (if take 1 s = ''-'' \<or> take 1 s = ''+'' then drop 1 s else s);
               hex = (take 2 s1 = ''0x'' \<or> take 2 s1 = ''0X'');
               radix = (if hex then 16 else 10);
               s2 = (if hex then drop 2 s1 else s1);
               z = takeWhile (\<lambda>c. digit_value radix c \<noteq> None) s2
           in if z = [] then None
              else Some ((if negative then - 1 else 1) * int (digits_value radix z))))"

text \<open>\<open>n || d\<close> on numbers: \<open>NaN\<close> and 0 are falsy.\<close>

definition or_num :: "int option \<Rightarrow> int \<Rightarrow> int" where
  "or_num n d = (case n of None \<Rightarrow> d | Some v \<Rightarrow> if v = 0 then d else v)"

text \<open>A number that may be infinite or \<open>NaN\<close>, as a quotient by zero is.\<close>

datatype jsnumber = Finite int | PosInfinity | NegInfinity | NotANumber

text \<open>\<open>Math.ceil(a / b)\<close> on integers \<open>a\<close> and \<open>b\<close>.\<close>

definition ceil_quotient :: "int \<Rightarrow> int \<Rightarrow> jsnumber" where
  "ceil_quotient a b =
     (if b = 0 then (if a > 0 then PosInfinity else if a < 0 then NegInfinity else NotANumber)
      else Finite \<lceil>(of_int a :: rat) / of_int b\<rceil>)"

text \<open>\<open>p < n\<close> for an integer \<open>p\<close>; every comparison with \<open>NaN\<close> is false.\<close>

fun less_jsnumber :: "int \<Rightarrow> jsnumber \<Rightarrow> bool" where
  "less_jsnumber p (Finite n) = (p < n)"
| "less_jsnumber p PosInfinity = True"
| "less_jsnumber p NegInfinity = False"
| "less_jsnumber p NotANumber = False"

section \<open>Requests and replies\<close>

text \<open>
  The parts of an Express request the code reads: the query string, the cookies, the
  headers and the route parameters, each a map from names to strings; and the two fields
  the middlewares attach (\<open>req.user\<close> with the user's id and role names,
  \<open>req.securityToken\<close> with the shortened token and its purpose).
\<close>

record Request =
  query :: "string \<rightharpoonup> string"
  cookies :: "string \<rightharpoonup> string"
  headers :: "string \<rightharpoonup> string"
  params :: "string \<rightharpoonup> string"
  user :: "(int \<times> string list) option"
  securityToken :: "(string \<times> string option) option"

text \<open>
  A JSON reply: the HTTP status, and the fields \<open>success\<close>, \<open>message\<close>, \<open>code\<close> and \<open>data\<close>
  of the body.
\<close>

datatype 'a reply =
  Reply (status: nat) (reply_success: bool) (message: string) (code: "string option")
    (reply_data: "'a option")

text \<open>A middleware either replies itself or calls \<open>next()\<close> with the request.\<close>

datatype ('a, 'r) outcome = Responded "'a reply" | Next 'r

section \<open>Pagination\<close>

text \<open>
  \<open>PaginationOptions\<close> also declares \<open>page\<close> and \<open>limit\<close>; the code never reads them.
  The fields \<open>page\<close> and \<open>limit\<close> of \<open>PaginationMeta\<close> carry the suffix \<open>_meta\<close>.
\<close>

record PaginationOptions =
  maxLimit :: "int option"
  defaultLimit :: "int option"

record PaginationParams =
  page :: int
  limit :: int
  skip :: int

record PaginationMeta =
  page_meta :: int
  limit_meta :: int
  total :: int
  totalPages :: jsnumber
  hasNext :: bool
  hasPrev :: bool

record 'a PaginatedResponse =
  success :: bool
  data :: "'a list"
  pagination :: PaginationMeta

definition getPaginationParams :: "Request \<Rightarrow> PaginationOptions \<Rightarrow> PaginationParams" where
  "getPaginationParams req options =
     (let maxLimit_v = (case maxLimit options of None \<Rightarrow> 100 | Some m \<Rightarrow> m);
          defaultLimit_v = (case defaultLimit options of None \<Rightarrow> 10 | Some d \<Rightarrow> d);
          page_v = max 1 (or_num (parseInt (query req ''page'')) 1);
          limit0 = or_num (parseInt (query req ''limit'')) defaultLimit_v;
          limit1 = min limit0 maxLimit_v;
          limit_v = max 1 limit1;
          skip_v = (page_v - 1) * limit_v
      in \<lparr>page = page_v, limit = limit_v, skip = skip_v\<rparr>)"

definition createPaginationMeta :: "int \<Rightarrow> int \<Rightarrow> int \<Rightarrow> PaginationMeta" where
  "createPaginationMeta page_v limit_v total_v =
     (let totalPages_v = ceil_quotient total_v limit_v
      in \<lparr>page_meta = page_v, limit_meta = limit_v, total = total_v,
          totalPages = totalPages_v,
          hasNext = less_jsnumber page_v totalPages_v,
          hasPrev = (page_v > 1)\<rparr>)"

definition createPaginatedResponse :: "'a list \<Rightarrow> PaginationMeta \<Rightarrow> 'a PaginatedResponse" where
  "createPaginatedResponse data_v pagination_v =
     \<lparr>success = True, data = data_v, pagination = pagination_v\<rparr>"

text \<open>
  \<open>handlePagination\<close>: the count function and the data function are the caller's; the
  data function receives the pagination parameters. Both are modelled as functions that
  return (a rejected promise is not modelled).
\<close>

definition handlePagination ::
  "Request \<Rightarrow> (unit \<Rightarrow> int) \<Rightarrow> (PaginationParams \<Rightarrow> 'a list) \<Rightarrow> PaginationOptions
     \<Rightarrow> 'a PaginatedResponse" where
  "handlePagination req countFn dataFn options =
     (let paginationParams = getPaginationParams req options;
          total_v = countFn ();
          data_v = dataFn paginationParams;
          paginationMeta =
            createPaginationMeta (page paginationParams) (limit paginationParams) total_v
      in createPaginatedResponse data_v paginationMeta)"

text \<open>
  The data function every listing controller passes,
  \<open>({ skip, limit }) => findMany({ where, orderBy, skip, take: limit })\<close>, over the rows
  that match \<open>where\<close>, in the order of \<open>orderBy\<close>: \<open>skip\<close> rows are dropped and at most \<open>take\<close>
  rows are returned.
\<close>

definition findMany_skip_take :: "'a list \<Rightarrow> PaginationParams \<Rightarrow> 'a list" where
  "findMany_skip_take rows p = take (nat (limit p)) (drop (nat (skip p)) rows)"

section \<open>Search\<close>

datatype searchMode = contains | startsWith | endsWith

record SearchOptions =
  searchFields :: "string list option"
  searchMode :: "searchMode option"

record SearchParams =
  search :: "string option"
  searchFields_params :: "string list"

text \<open>
  A Prisma \<open>where\<close> clause, as far as the search helper builds it: the empty object, one
  field condition \<open>{ [field]: { [mode]: term } }\<close>, or \<open>{ OR: [...] }\<close>.
\<close>

datatype whereClause =
  EmptyWhere
| FieldWhere string searchMode string
| OrWhere "whereClause list"

definition getSearchParams :: "Request \<Rightarrow> SearchOptions \<Rightarrow> SearchParams" where
  "getSearchParams req options =
     (let searchFields_v = (case searchFields options of None \<Rightarrow> [''name''] | Some f \<Rightarrow> f);
          search_v = query req ''search''
      in \<lparr>search = or_str (map_option trim search_v) None,
          searchFields_params = searchFields_v\<rparr>)"

definition buildSearchWhereClause :: "SearchParams \<Rightarrow> SearchOptions \<Rightarrow> whereClause" where
  "buildSearchWhereClause searchParams options =
     (let searchMode_v = (case searchMode options of None \<Rightarrow> contains | Some m \<Rightarrow> m)
      in case search searchParams of
           None \<Rightarrow> EmptyWhere
         | Some term \<Rightarrow>
             if term = [] then EmptyWhere
             else (case searchFields_params searchParams of
                     [f] \<Rightarrow> FieldWhere f searchMode_v term
                   | fs \<Rightarrow> OrWhere (map (\<lambda>f. FieldWhere f searchMode_v term) fs)))"

definition handleSearch :: "Request \<Rightarrow> SearchOptions \<Rightarrow> whereClause" where
  "handleSearch req options =
     (let searchParams = getSearchParams req options
      in buildSearchWhereClause searchParams options)"

section \<open>Sorting\<close>

datatype sortOrder = asc | desc

record SortOptions =
  allowedFields :: "string list option"
  defaultField :: "string option"
  defaultOrder :: "sortOrder option"

record SortParams =
  field :: string
  order :: sortOrder

definition getSortParams :: "Request \<Rightarrow> SortOptions \<Rightarrow> SortParams" where
  "getSortParams req options =
     (let allowedFields_v =
            (case allowedFields options of
               None \<Rightarrow> [''created_at'', ''updated_at'', ''name'']
             | Some a \<Rightarrow> a);
          defaultField_v = (case defaultField options of None \<Rightarrow> ''created_at'' | Some f \<Rightarrow> f);
          defaultOrder_v = (case defaultOrder options of None \<Rightarrow> desc | Some d \<Rightarrow> d);
          sortBy = query req ''sortBy'';
          sortOrder_v = query req ''sortOrder'';
          field_v =
            (case sortBy of
               None \<Rightarrow> defaultField_v
             | Some s \<Rightarrow> if s \<noteq> [] \<and> s \<in> set allowedFields_v then s else defaultField_v);
          order_v =
            (if sortOrder_v = Some ''asc'' then asc
             else if sortOrder_v = Some ''desc'' then desc
             else defaultOrder_v)
      in \<lparr>field = field_v, order = order_v\<rparr>)"

text \<open>The \<open>orderBy\<close> clause \<open>{ [field]: order }\<close> is the pair of its key and its value.\<close>

definition buildOrderByClause :: "SortParams \<Rightarrow> string \<times> sortOrder" where
  "buildOrderByClause sortParams = (field sortParams, order sortParams)"

definition handleSorting :: "Request \<Rightarrow> SortOptions \<Rightarrow> string \<times> sortOrder" where
  "handleSorting req options =
     (let sortParams = getSortParams req options
      in buildOrderByClause sortParams)"

section \<open>Authentication middlewares\<close>

text \<open>The environment variables the middlewares read; an unset variable is \<open>None\<close>.\<close>

record Env =
  JWT_SECRET :: "string option"
  REGISTRATION_TOKENS :: "string option"
  ADMIN_TOKENS :: "string option"
  SENSITIVE_TOKENS :: "string option"
  GENERAL_TOKENS :: "string option"

text \<open>\<open>process.env.X?.split(',').map((t) => t.trim()) || []\<close>\<close>

definition env_tokens :: "string option \<Rightarrow> string list" where
  "env_tokens v = (case v of None \<Rightarrow> [] | Some s \<Rightarrow> map trim (split_on (CHR '','') s))"

definition getStaticTokens :: "Env \<Rightarrow> (string \<times> string list) list" where
  "getStaticTokens env =
     [(''registration'', env_tokens (REGISTRATION_TOKENS env)),
      (''admin'', env_tokens (ADMIN_TOKENS env)),
      (''sensitive'', env_tokens (SENSITIVE_TOKENS env)),
      (''general'', env_tokens (GENERAL_TOKENS env))]"

definition verifySecurityToken :: "Env \<Rightarrow> string \<Rightarrow> string option \<Rightarrow> bool" where
  "verifySecurityToken env token expectedPurpose =
     (let staticTokens = getStaticTokens env
      in if falsy expectedPurpose then
           token \<in> set (concat (map snd staticTokens))
         else
           (let purposeTokens =
                  (case map_of staticTokens (case expectedPurpose of None \<Rightarrow> [] | Some p \<Rightarrow> p) of
                     None \<Rightarrow> []
                   | Some ts \<Rightarrow> ts)
            in token \<in> set purposeTokens))"

text \<open>
  \<open>requireSecurityToken(purpose)\<close>. Header names are the lower-case names Node gives
  them. The time stamp \<open>verifiedAt\<close> of \<open>req.securityToken\<close> is left out.
\<close>

definition requireSecurityToken ::
  "Env \<Rightarrow> string option \<Rightarrow> Request \<Rightarrow> (unit, Request) outcome" where
  "requireSecurityToken env purpose req =
     (let token =
            or_str (or_str (or_str (headers req ''x-security-token'')
                                   (headers req ''x-api-token''))
                           (map_option (replace_first ''Bearer '' [])
                                       (headers req ''authorization'')))
                   (headers req ''x-access-token'')
      in case token of
           None \<Rightarrow>
             Responded (Reply 401 False ''Security token is required''
                          (Some ''MISSING_SECURITY_TOKEN'') None)
         | Some t \<Rightarrow>
             if t = [] then
               Responded (Reply 401 False ''Security token is required''
                            (Some ''MISSING_SECURITY_TOKEN'') None)
             else
               (let isValid = verifySecurityToken env t purpose
                in if \<not> isValid then
                     Responded (Reply 403 False ''Invalid security token''
                                  (Some ''INVALID_SECURITY_TOKEN'') None)
                   else Next (req\<lparr>securityToken := Some (take 8 t @ ''***'', purpose)\<rparr>)))"

definition requireGeneralToken :: "Env \<Rightarrow> Request \<Rightarrow> (unit, Request) outcome" where
  "requireGeneralToken env = requireSecurityToken env (Some ''general'')"

text \<open>A row of the \<open>users\<close> table with the names of its roles.\<close>

record users_row =
  id_user :: int
  roles :: "string list"

text \<open>
  \<open>authenticateToken\<close>. The library call \<open>jwt.verify(token, secret)\<close> is a parameter: it
  gives the \<open>userId\<close> of the payload, or \<open>None\<close> where it throws.
\<close>

definition authenticateToken ::
  "(string \<Rightarrow> string \<Rightarrow> int option) \<Rightarrow> Env \<Rightarrow> users_row list \<Rightarrow> Request
     \<Rightarrow> (unit, Request) outcome" where
  "authenticateToken jwt_verify env users req =
     (case cookies req ''auth_token'' of
        None \<Rightarrow> Responded (Reply 401 False ''Access token is required'' None None)
      | Some token \<Rightarrow>
          if token = [] then
            Responded (Reply 401 False ''Access token is required'' None None)
          else
            (let secret = (case or_str (JWT_SECRET env) (Some ''your-secret-key'') of
                             None \<Rightarrow> [] | Some k \<Rightarrow> k)
             in case jwt_verify token secret of
                  None \<Rightarrow> Responded (Reply 403 False ''Invalid token'' None None)
                | Some userId \<Rightarrow>
                    (case find (\<lambda>u. id_user u = userId) users of
                       None \<Rightarrow> Responded (Reply 401 False ''User not found'' None None)
                     | Some u \<Rightarrow> Next (req\<lparr>user := Some (id_user u, roles u)\<rparr>))))"

section \<open>Server controllers\<close>

text \<open>
  The database as the server controllers see it: the \<open>servers\<close> table, the
  \<open>primary_analytics\<close> table (its key and its foreign key \<open>servers_id\<close>) and the
  \<open>AUTO_INCREMENT\<close> counter of \<open>servers\<close>.
\<close>

record primary_analytic =
  id_analytic :: int
  servers_id :: "int option"

record database =
  servers :: "server list"
  primary_analytics :: "primary_analytic list"
  servers_auto_increment :: int

text \<open>\<open>_count.primary_analytics\<close> of a server.\<close>

definition count_primary_analytics :: "database \<Rightarrow> int \<Rightarrow> nat" where
  "count_primary_analytics db i =
     length (filter (\<lambda>a. servers_id a = Some i) (primary_analytics db))"

text \<open>A JSON value of a request body; the body is an object, a map from keys to values.\<close>

datatype json =
  JNull | JBool bool | JNumber rat | JString string
| JArray "json list" | JObject "(string \<times> json) list"


record server_view = server +
  analytics_count :: nat

datatype payload =
  NoPayload
| Errors "(string \<times> string) list"
| ServerData server_view













text \<open>
  \<open>deleteServer\<close>. A route parameter that \<open>parseInt\<close> turns into \<open>NaN\<close> makes the
  query throw, which the handler answers with status 500.
\<close>

definition deleteServer :: "database \<Rightarrow> Request \<Rightarrow> payload reply \<times> database" where
  "deleteServer db req =
     (case parseInt (params req ''id'') of
        None \<Rightarrow> (Reply 500 False ''Internal server error'' None None, db)
      | Some i \<Rightarrow>
          (case findUnique_id (servers db) i of
             None \<Rightarrow> (Reply 404 False ''Server not found'' None None, db)
           | Some existingServer \<Rightarrow>
               if count_primary_analytics db i > 0 then
                 (Reply 400 False
                    ''Cannot delete server with active primary analytics. Please remove all related analytics first.''
                    None None, db)
               else
                 (Reply 200 True ''Server deleted successfully'' None None,
                  db\<lparr>servers := filter (\<lambda>s. id_server s \<noteq> i) (servers db)\<rparr>)))"

section \<open>Facts about the table operations\<close>

lemma findUnique_id_update_cur_same:
  "findUnique_id rows i = Some s \<Longrightarrow>
   findUnique_id (update_cur rows i v) i = Some (s\<lparr>cur_activity_monitoring := v\<rparr>)"
  unfolding findUnique_id_def update_cur_def
  by (induction rows) (auto split: if_splits)

lemma findUnique_id_update_cur_other:
  "j \<noteq> i \<Longrightarrow> findUnique_id (update_cur rows i v) j = findUnique_id rows j"
  unfolding findUnique_id_def update_cur_def
  by (induction rows) auto

section \<open>Facts about sorting and selection\<close>

lemma set_insert_by: "set (insert_by cmp x ys) = insert x (set ys)"
  by (induction ys) auto

lemma set_sort_by: "set (sort_by cmp xs) = set xs"
  by (induction xs) (auto simp: set_insert_by)

lemma compareServers_le_iff:
  "compareServers a b \<le> 0 \<longleftrightarrow>
     utilizationPercentage a < utilizationPercentage b
   \<or> (utilizationPercentage a = utilizationPercentage b
      \<and> availableCapacity b \<le> availableCapacity a)"
  by (auto simp: compareServers_def)

lemma compareServers_total: "compareServers a b \<le> 0 \<or> compareServers b a \<le> 0"
  unfolding compareServers_le_iff by auto

lemma compareServers_trans:
  "compareServers a b \<le> 0 \<Longrightarrow> compareServers b c \<le> 0 \<Longrightarrow> compareServers a c \<le> 0"
  unfolding compareServers_le_iff by auto

lemma first_elem_sort_by_least:
  "first_elem (sort_by compareServers xs) = Some r \<Longrightarrow>
   r \<in> set xs \<and> (\<forall>s \<in> set xs. compareServers r s \<le> 0)"
proof (induction xs arbitrary: r)
  case Nil
  then show ?case by simp
next
  case (Cons x xs)
  show ?case
  proof (cases "sort_by compareServers xs")
    case Nil
    then have "set xs = {}" using set_sort_by [of compareServers xs] by simp
    with Cons.prems Nil show ?thesis
      using compareServers_total [of x x] by simp
  next
    case (Cons y ys)
    then have y: "first_elem (sort_by compareServers xs) = Some y" by simp
    from Cons.IH [OF y] have yin: "y \<in> set xs"
      and yle: "\<forall>s \<in> set xs. compareServers y s \<le> 0" by auto
    show ?thesis
    proof (cases "compareServers x y \<le> 0")
      case True
      with Cons.prems Cons have "r = x" by simp
      moreover have "\<forall>s \<in> set xs. compareServers x s \<le> 0"
        using True yle compareServers_trans by blast
      moreover have "compareServers x x \<le> 0" using compareServers_total [of x x] by simp
      ultimately show ?thesis by simp
    next
      case False
      with Cons.prems Cons have "r = y" by simp
      moreover have "compareServers y x \<le> 0"
        using False compareServers_total [of x y] by simp
      ultimately show ?thesis using yin yle by simp
    qed
  qed
qed

lemma first_elem_None_iff: "first_elem xs = None \<longleftrightarrow> xs = []"
  by (cases xs) auto

lemma sort_by_Nil_iff: "sort_by cmp xs = [] \<longleftrightarrow> xs = []"
  using set_sort_by [of cmp xs] by (metis set_empty)

lemma capacityInfo_fields:
  "id_server (capacityInfo s) = id_server s"
  "ip (capacityInfo s) = ip s"
  "description (capacityInfo s) = description s"
  "max_activity_monitoring (capacityInfo s) = max_activity_monitoring s"
  "cur_activity_monitoring (capacityInfo s) = cur_activity_monitoring s"
  "availableCapacity (capacityInfo s) = max_activity_monitoring s - cur_activity_monitoring s"
  "utilizationPercentage (capacityInfo s) =
     (if max_activity_monitoring s > 0
      then (of_int (cur_activity_monitoring s) / of_int (max_activity_monitoring s)) * 100
      else 0)"
  by (simp_all add: capacityInfo_def server.defs ServerCapacityInfo.defs)

text \<open>\<open>selectBestServer\<close> returns the head of the sorted list of its candidates.\<close>

lemma selectBestServer_eq:
  "selectBestServer rows t options =
     first_elem (sort_by compareServers
       (filter (\<lambda>s. (t = 1 \<longrightarrow> max_activity_monitoring s > 0))
         (filter (\<lambda>s. availableCapacity s \<ge> (case requiredCapacity options of None \<Rightarrow> 1 | Some r \<Rightarrow> r))
           (filter (\<lambda>s. id_server s \<notin> set (case excludeServerIds options of None \<Rightarrow> [] | Some e \<Rightarrow> e))
              (getServerCapacityInfo rows)))))"
proof -
  define wc where "wc =
    filter (\<lambda>s. availableCapacity s \<ge> (case requiredCapacity options of None \<Rightarrow> 1 | Some r \<Rightarrow> r))
      (filter (\<lambda>s. id_server s \<notin> set (case excludeServerIds options of None \<Rightarrow> [] | Some e \<Rightarrow> e))
         (getServerCapacityInfo rows))"
  define am where "am = filter (\<lambda>s. max_activity_monitoring s > 0) wc"
  have sel: "selectBestServer rows t options =
      (if wc = [] then None
       else if t = 1 then (if am = [] then None else first_elem (sort_by compareServers am))
       else first_elem (sort_by compareServers wc))"
    unfolding selectBestServer_def Let_def wc_def am_def by simp
  have rhs: "filter (\<lambda>s. (t = 1 \<longrightarrow> max_activity_monitoring s > 0)) wc
               = (if t = 1 then am else wc)"
    by (simp add: am_def)
  have "selectBestServer rows t options
          = first_elem (sort_by compareServers (if t = 1 then am else wc))"
    unfolding sel by (auto simp: am_def)
  then have "selectBestServer rows t options
          = first_elem (sort_by compareServers
              (filter (\<lambda>s. (t = 1 \<longrightarrow> max_activity_monitoring s > 0)) wc))"
    by (simp only: rhs)
  then show ?thesis
    by (simp only: wc_def)
qed

section \<open>Facts about pagination\<close>

lemma less_ceiling_quotient:
  assumes "0 < l"
  shows "p < \<lceil>(of_int t :: rat) / of_int l\<rceil> \<longleftrightarrow> p * l < t"
proof -
  have "p < \<lceil>(of_int t :: rat) / of_int l\<rceil> \<longleftrightarrow> (of_int p :: rat) < of_int t / of_int l"
    by (rule less_ceiling_iff)
  also have "\<dots> \<longleftrightarrow> (of_int p :: rat) * of_int l < of_int t"
    using assms by (simp add: pos_less_divide_eq)
  also have "\<dots> \<longleftrightarrow> p * l < t"
    by (simp only: of_int_mult [symmetric] of_int_less_iff)
  finally show ?thesis .
qed

lemma getPaginationParams_bounds:
  "1 \<le> page (getPaginationParams req options)"
  "1 \<le> limit (getPaginationParams req options)"
  "skip (getPaginationParams req options)
     = (page (getPaginationParams req options) - 1) * limit (getPaginationParams req options)"
  by (simp_all add: getPaginationParams_def Let_def)

lemma length_findMany_skip_take:
  "1 \<le> limit p \<Longrightarrow> int (length (findMany_skip_take rows p)) \<le> limit p"
  by (simp add: findMany_skip_take_def)

lemma ceil_quotient_div: "b \<noteq> 0 \<Longrightarrow> ceil_quotient a b = Finite (- (- a div b))"
  by (simp add: ceil_quotient_def ceiling_divide_eq_div)

lemmas parseInt_eval =
  parseInt_def strip_front.simps front_length_def whitespace_encodings_def
  digit_value_def digits_value_def Let_def

section \<open>Facts about white space and search\<close>

lemma whitespace_encodings_nonempty: "w \<in> set whitespace_encodings \<Longrightarrow> w \<noteq> []"
  by (auto simp: whitespace_encodings_def)

lemma whitespace_encodings_prefix_free:
  "\<forall>a \<in> set whitespace_encodings. \<forall>b \<in> set whitespace_encodings.
     take (length a) b = a \<longrightarrow> a = b"
  by (simp add: whitespace_encodings_def)

lemma find_unique_Some:
  assumes "x \<in> set xs" and "P x" and "\<forall>y \<in> set xs. P y \<longrightarrow> y = x"
  shows "find P xs = Some x"
  using assms
proof (induction xs)
  case Nil
  then show ?case by simp
next
  case (Cons a xs)
  show ?case
  proof (cases "P a")
    case True
    with Cons.prems(3) have "a = x" by simp
    with True show ?thesis by simp
  next
    case False
    with Cons.prems(1,2) have mem: "x \<in> set xs" by auto
    from Cons.prems(3) have rest: "\<forall>y \<in> set xs. P y \<longrightarrow> y = x" by simp
    have "find P xs = Some x"
      using mem Cons.prems(2) rest by (rule Cons.IH)
    with False show ?thesis by simp
  qed
qed

lemma front_length_whitespace_append:
  assumes w: "w \<in> set whitespace_encodings"
  shows "front_length whitespace_encodings (w @ r) = length w"
proof -
  let ?P = "\<lambda>x. x \<noteq> [] \<and> take (length x) (w @ r) = x"
  have Pw: "?P w"
    using whitespace_encodings_nonempty [OF w] by simp
  have uniq: "\<forall>y \<in> set whitespace_encodings. ?P y \<longrightarrow> y = w"
  proof (intro ballI impI)
    fix y assume y: "y \<in> set whitespace_encodings" and Py: "?P y"
    from Py have e: "take (length y) (w @ r) = y" by (rule conjunct2)
    show "y = w"
    proof (cases "length y \<le> length w")
      case True
      then have "take (length y) (w @ r) = take (length y) w" by simp
      then have "take (length y) w = y" unfolding e by (rule sym)
      with y w whitespace_encodings_prefix_free show ?thesis by blast
    next
      case False
      then have "take (length w) (take (length y) (w @ r)) = w" by (simp add: min_def)
      then have "take (length w) y = w" unfolding e .
      with y w whitespace_encodings_prefix_free show ?thesis by blast
    qed
  qed
  have "find ?P whitespace_encodings = Some w"
  proof (rule find_unique_Some)
    show "w \<in> set whitespace_encodings" by (rule w)
    show "?P w" by (rule Pw)
    show "\<forall>y \<in> set whitespace_encodings. ?P y \<longrightarrow> y = w" by (rule uniq)
  qed
  then show ?thesis
    by (simp add: front_length_def)
qed

lemma find_prefix_Nil: "find (\<lambda>w. w \<noteq> [] \<and> [] = w) ws = None"
  by (induction ws) auto

lemma front_length_Nil: "front_length ws [] = 0"
  by (simp add: front_length_def find_prefix_Nil)

lemma strip_front_Nil: "strip_front ws [] = []"
  by (subst strip_front.simps) (simp add: front_length_Nil)

lemma strip_front_whitespace_concat:
  "set ws \<subseteq> set whitespace_encodings \<Longrightarrow>
   strip_front whitespace_encodings (concat ws) = []"
proof (induction ws)
  case Nil
  show ?case by (simp add: strip_front_Nil)
next
  case (Cons w ws)
  then have w: "w \<in> set whitespace_encodings" and rest: "set ws \<subseteq> set whitespace_encodings"
    by auto
  have len: "front_length whitespace_encodings (w @ concat ws) = length w"
    using w by (rule front_length_whitespace_append)
  have pos: "length w \<noteq> 0"
    using whitespace_encodings_nonempty [OF w] by simp
  have "strip_front whitespace_encodings (w @ concat ws)
          = strip_front whitespace_encodings (concat ws)"
    using len pos by (subst strip_front.simps) simp
  then show ?case
    using Cons.IH [OF rest] by simp
qed

lemma trim_whitespace_only:
  "set ws \<subseteq> set whitespace_encodings \<Longrightarrow> trim (concat ws) = []"
  by (simp add: trim_def strip_front_whitespace_concat strip_front_Nil)

lemma getSearchParams_blank:
  assumes "case query req ''search'' of
             None \<Rightarrow> True
           | Some s \<Rightarrow> \<exists>ws. set ws \<subseteq> set whitespace_encodings \<and> s = concat ws"
  shows "search (getSearchParams req options) = None"
proof (cases "query req ''search''")
  case None
  then show ?thesis
    by (simp add: getSearchParams_def Let_def or_str_def falsy_def)
next
  case (Some s)
  with assms obtain ws where "set ws \<subseteq> set whitespace_encodings" and s: "s = concat ws"
    by auto
  then have "trim s = []"
    by (simp only: trim_whitespace_only)
  with Some show ?thesis
    by (simp add: getSearchParams_def Let_def or_str_def falsy_def)
qed

lemmas trim_eval = trim_def strip_front.simps front_length_def whitespace_encodings_def

section \<open>Facts about the middlewares and the server controllers\<close>

lemma verifySecurityToken_general:
  "verifySecurityToken env t (Some ''general'') \<longleftrightarrow> t \<in> set (env_tokens (GENERAL_TOKENS env))"
  by (simp add: verifySecurityToken_def getStaticTokens_def falsy_def Let_def)










section \<open>Reserving and releasing capacity\<close>

text \<open>
  Claim C3. For an existing server row and analytic type 1, \<open>reserveServerCapacity\<close> with
  an amount that does not fit (\<open>cur_activity_monitoring + capacity > max_activity_monitoring\<close>)
  returns false and leaves the table as it was; with an amount that fits it returns true,
  the row's \<open>cur_activity_monitoring\<close> is the old value plus exactly that amount, and
  every other row is as before.
\<close>

theorem reserveServerCapacity_activity_monitoring:
  assumes "findUnique_id rows serverId = Some s"
  shows "let c = (case capacity_arg of None \<Rightarrow> 1 | Some k \<Rightarrow> k);
             r = reserveServerCapacity rows serverId 1 capacity_arg
         in (cur_activity_monitoring s + c > max_activity_monitoring s \<longrightarrow> r = (False, rows))
          \<and> (cur_activity_monitoring s + c \<le> max_activity_monitoring s \<longrightarrow>
               fst r = True
             \<and> findUnique_id (snd r) serverId
                 = Some (s\<lparr>cur_activity_monitoring := cur_activity_monitoring s + c\<rparr>)
             \<and> (\<forall>j. j \<noteq> serverId \<longrightarrow> findUnique_id (snd r) j = findUnique_id rows j))"
  using assms
  by (simp add: reserveServerCapacity_def Let_def findUnique_id_update_cur_same
        findUnique_id_update_cur_other)

theorem reserveServerCapacity_activity_monitoring_witness:
  "(let rows = [\<lparr>id_server = 1, ip = ''10.0.0.5'', description = None,
                 max_activity_monitoring = 5, cur_activity_monitoring = 4\<rparr>]
    in findUnique_id rows 1 = Some (hd rows)
     \<and> reserveServerCapacity rows 1 1 (Some 2) = (False, rows)
     \<and> reserveServerCapacity rows 1 1 None
         = (True, [\<lparr>id_server = 1, ip = ''10.0.0.5'', description = None,
                 max_activity_monitoring = 5, cur_activity_monitoring = 5\<rparr>]))"
  using reserveServerCapacity_activity_monitoring
    [of "[\<lparr>id_server = 1, ip = ''10.0.0.5'', description = None,
                 max_activity_monitoring = 5, cur_activity_monitoring = 4\<rparr>]" 1 
        "\<lparr>id_server = 1, ip = ''10.0.0.5'', description = None,
                 max_activity_monitoring = 5, cur_activity_monitoring = 4\<rparr>" "Some 2"]
     reserveServerCapacity_activity_monitoring
    [of "[\<lparr>id_server = 1, ip = ''10.0.0.5'', description = None,
                 max_activity_monitoring = 5, cur_activity_monitoring = 4\<rparr>]" 1 
        "\<lparr>id_server = 1, ip = ''10.0.0.5'', description = None,
                 max_activity_monitoring = 5, cur_activity_monitoring = 4\<rparr>" "None"]
  by (simp add: findUnique_id_def reserveServerCapacity_def update_cur_def)

text \<open>
  Claim C10. For an existing server row, analytic type 1 and any amount,
  \<open>releaseServerCapacity\<close> writes \<open>max 0 (cur_activity_monitoring - capacity)\<close> and returns
  true; the counter it writes is never negative, also when more is released than is held,
  and a table whose counters are all non-negative stays so.
\<close>

theorem releaseServerCapacity_never_negative:
  assumes "findUnique_id rows serverId = Some s"
  shows "let c = (case capacity_arg of None \<Rightarrow> 1 | Some k \<Rightarrow> k);
             r = releaseServerCapacity rows serverId 1 capacity_arg
         in fst r = True
          \<and> snd r = update_cur rows serverId (max 0 (cur_activity_monitoring s - c))
          \<and> findUnique_id (snd r) serverId
               = Some (s\<lparr>cur_activity_monitoring := max 0 (cur_activity_monitoring s - c)\<rparr>)
          \<and> (\<forall>s'. findUnique_id (snd r) serverId = Some s' \<longrightarrow> 0 \<le> cur_activity_monitoring s')
          \<and> ((\<forall>x \<in> set rows. 0 \<le> cur_activity_monitoring x) \<longrightarrow>
               (\<forall>x \<in> set (snd r). 0 \<le> cur_activity_monitoring x))"
proof -
  define c where "c = (case capacity_arg of None \<Rightarrow> 1 | Some k \<Rightarrow> k)"
  define v where "v = max 0 (cur_activity_monitoring s - c)"
  have r: "releaseServerCapacity rows serverId 1 capacity_arg = (True, update_cur rows serverId v)"
    using assms by (simp add: releaseServerCapacity_def Let_def c_def v_def)
  have v0: "0 \<le> v" by (simp add: v_def)
  have f: "findUnique_id (update_cur rows serverId v) serverId
             = Some (s\<lparr>cur_activity_monitoring := v\<rparr>)"
    using assms by (rule findUnique_id_update_cur_same)
  have inv: "(\<forall>x \<in> set rows. 0 \<le> cur_activity_monitoring x) \<longrightarrow>
             (\<forall>x \<in> set (update_cur rows serverId v). 0 \<le> cur_activity_monitoring x)"
    using v0 by (auto simp: update_cur_def)
  show ?thesis
    using r f v0 inv unfolding Let_def c_def [symmetric] v_def [symmetric] by auto
qed

theorem releaseServerCapacity_never_negative_witness:
  "(let rows = [\<lparr>id_server = 1, ip = ''10.0.0.5'', description = None,
                 max_activity_monitoring = 5, cur_activity_monitoring = 2\<rparr>]
    in findUnique_id rows 1 = Some (hd rows)
     \<and> 0 \<le> cur_activity_monitoring (hd rows)
     \<and> releaseServerCapacity rows 1 1 (Some 7)
         = (True, [\<lparr>id_server = 1, ip = ''10.0.0.5'', description = None,
                 max_activity_monitoring = 5, cur_activity_monitoring = 0\<rparr>]))"
  using releaseServerCapacity_never_negative
    [of "[\<lparr>id_server = 1, ip = ''10.0.0.5'', description = None,
                 max_activity_monitoring = 5, cur_activity_monitoring = 2\<rparr>]" 1 
        "\<lparr>id_server = 1, ip = ''10.0.0.5'', description = None,
                 max_activity_monitoring = 5, cur_activity_monitoring = 2\<rparr>" "Some 7"]
  by (simp add: Let_def findUnique_id_def update_cur_def prod_eq_iff)

section \<open>Selecting a server\<close>

text \<open>
  Claim C2, as amended. \<open>selectBestServer\<close> computes for every row the free capacity
  \<open>max_activity_monitoring - cur_activity_monitoring\<close> and the utilisation
  (\<open>cur / max * 100\<close> when \<open>max > 0\<close>, else 0). The candidates are the servers whose id is
  not in \<open>excludeServerIds\<close>, whose free capacity is not below \<open>requiredCapacity\<close>
  (1 when omitted) and, for analytic type 1, whose \<open>max_activity_monitoring\<close> is positive.
  The result is \<open>null\<close> exactly when there is no candidate; otherwise it is a candidate
  of least utilisation, and among those of least utilisation one of greatest free capacity.
\<close>

theorem selectBestServer_least_utilization:
  "let required = (case requiredCapacity options of None \<Rightarrow> 1 | Some r \<Rightarrow> r);
       excluded = (case excludeServerIds options of None \<Rightarrow> [] | Some e \<Rightarrow> e);
       candidates =
         {s \<in> set (getServerCapacityInfo rows).
            id_server s \<notin> set excluded
          \<and> \<not> availableCapacity s < required
          \<and> (typeAnalyticId = 1 \<longrightarrow> max_activity_monitoring s > 0)}
   in (\<forall>s \<in> set (getServerCapacityInfo rows).
         availableCapacity s = max_activity_monitoring s - cur_activity_monitoring s
       \<and> utilizationPercentage s =
           (if max_activity_monitoring s > 0
            then of_int (cur_activity_monitoring s) / of_int (max_activity_monitoring s) * 100
            else 0))
    \<and> (selectBestServer rows typeAnalyticId options = None \<longleftrightarrow> candidates = {})
    \<and> (\<forall>r. selectBestServer rows typeAnalyticId options = Some r \<longrightarrow>
           r \<in> candidates
         \<and> (\<forall>s \<in> candidates.
                utilizationPercentage r < utilizationPercentage s
              \<or> (utilizationPercentage r = utilizationPercentage s
                 \<and> availableCapacity s \<le> availableCapacity r)))"
proof -
  define required where "required = (case requiredCapacity options of None \<Rightarrow> 1 | Some r \<Rightarrow> r)"
  define excluded where "excluded = (case excludeServerIds options of None \<Rightarrow> [] | Some e \<Rightarrow> e)"
  define cs where "cs =
    filter (\<lambda>s. (typeAnalyticId = 1 \<longrightarrow> max_activity_monitoring s > 0))
      (filter (\<lambda>s. availableCapacity s \<ge> required)
        (filter (\<lambda>s. id_server s \<notin> set excluded) (getServerCapacityInfo rows)))"
  define candidates where "candidates =
         {s \<in> set (getServerCapacityInfo rows).
            id_server s \<notin> set excluded
          \<and> \<not> availableCapacity s < required
          \<and> (typeAnalyticId = 1 \<longrightarrow> max_activity_monitoring s > 0)}"
  have sel: "selectBestServer rows typeAnalyticId options = first_elem (sort_by compareServers cs)"
    unfolding cs_def required_def excluded_def by (rule selectBestServer_eq)
  have set_cs: "set cs = candidates"
    unfolding cs_def candidates_def by auto
  have info: "\<forall>s \<in> set (getServerCapacityInfo rows).
         availableCapacity s = max_activity_monitoring s - cur_activity_monitoring s
       \<and> utilizationPercentage s =
           (if max_activity_monitoring s > 0
            then of_int (cur_activity_monitoring s) / of_int (max_activity_monitoring s) * 100
            else 0)"
    unfolding getServerCapacityInfo_def by (auto simp: capacityInfo_fields)
  have none: "selectBestServer rows typeAnalyticId options = None \<longleftrightarrow> candidates = {}"
    unfolding sel first_elem_None_iff sort_by_Nil_iff set_cs [symmetric] by simp
  have some: "\<forall>r. selectBestServer rows typeAnalyticId options = Some r \<longrightarrow>
           r \<in> candidates
         \<and> (\<forall>s \<in> candidates.
                utilizationPercentage r < utilizationPercentage s
              \<or> (utilizationPercentage r = utilizationPercentage s
                 \<and> availableCapacity s \<le> availableCapacity r))"
    unfolding sel set_cs [symmetric]
    using first_elem_sort_by_least [of cs] compareServers_le_iff by blast
  show ?thesis
    unfolding Let_def required_def [symmetric] excluded_def [symmetric] candidates_def [symmetric]
    using info none some by blast
qed

theorem selectBestServer_least_utilization_witness:
  "selectBestServer
     [\<lparr>id_server = 1, ip = ''10.0.0.1'', description = None,
        max_activity_monitoring = 4, cur_activity_monitoring = 2\<rparr>,
      \<lparr>id_server = 2, ip = ''10.0.0.2'', description = None,
        max_activity_monitoring = 10, cur_activity_monitoring = 5\<rparr>,
      \<lparr>id_server = 3, ip = ''10.0.0.3'', description = None,
        max_activity_monitoring = 2, cur_activity_monitoring = 0\<rparr>,
      \<lparr>id_server = 4, ip = ''10.0.0.4'', description = None,
        max_activity_monitoring = 8, cur_activity_monitoring = 8\<rparr>]
     1 \<lparr>requiredCapacity = None, preferredUtilizationThreshold = None,
        excludeServerIds = Some [3]\<rparr>
   = Some \<lparr>id_server = 2, ip = ''10.0.0.2'', description = None,
        max_activity_monitoring = 10, cur_activity_monitoring = 5,
        availableCapacity = 5, utilizationPercentage = 50\<rparr>
   \<and> utilizationPercentage (capacityInfo \<lparr>id_server = 1, ip = ''10.0.0.1'', description = None,
        max_activity_monitoring = 4, cur_activity_monitoring = 2\<rparr>) = 50
   \<and> availableCapacity (capacityInfo \<lparr>id_server = 1, ip = ''10.0.0.1'', description = None,
        max_activity_monitoring = 4, cur_activity_monitoring = 2\<rparr>) = 2"
  using selectBestServer_least_utilization
    [of "\<lparr>requiredCapacity = None, preferredUtilizationThreshold = None,
        excludeServerIds = Some [3]\<rparr>"
        "[\<lparr>id_server = 1, ip = ''10.0.0.1'', description = None,
        max_activity_monitoring = 4, cur_activity_monitoring = 2\<rparr>,
      \<lparr>id_server = 2, ip = ''10.0.0.2'', description = None,
        max_activity_monitoring = 10, cur_activity_monitoring = 5\<rparr>,
      \<lparr>id_server = 3, ip = ''10.0.0.3'', description = None,
        max_activity_monitoring = 2, cur_activity_monitoring = 0\<rparr>,
      \<lparr>id_server = 4, ip = ''10.0.0.4'', description = None,
        max_activity_monitoring = 8, cur_activity_monitoring = 8\<rparr>]" 1]
  by (simp add: selectBestServer_def getServerCapacityInfo_def capacityInfo_def
        compareServers_def server.defs ServerCapacityInfo.defs Let_def)

text \<open>
  Claim C2 as stated fails for analytic type 1: a server with
  \<open>max_activity_monitoring = 0\<close> that is neither excluded by id nor below the required
  capacity 0 remains, yet the result is \<open>null\<close>.
\<close>

theorem selectBestServer_zero_max_counterexample:
  "id_server (capacityInfo \<lparr>id_server = 1, ip = ''10.0.0.5'', description = None,
        max_activity_monitoring = 0, cur_activity_monitoring = 0\<rparr>) \<notin> set []
   \<and> \<not> availableCapacity (capacityInfo \<lparr>id_server = 1, ip = ''10.0.0.5'', description = None,
        max_activity_monitoring = 0, cur_activity_monitoring = 0\<rparr>) < 0
   \<and> selectBestServer
       [\<lparr>id_server = 1, ip = ''10.0.0.5'', description = None,
          max_activity_monitoring = 0, cur_activity_monitoring = 0\<rparr>]
       1 \<lparr>requiredCapacity = Some 0, preferredUtilizationThreshold = None,
          excludeServerIds = None\<rparr> = None"
  by (simp add: selectBestServer_def getServerCapacityInfo_def capacityInfo_def
        compareServers_def server.defs ServerCapacityInfo.defs Let_def)

section \<open>Analytic types other than activity monitoring\<close>

text \<open>
  Claim C9, as amended. For an analytic type other than 1, \<open>checkServerCapacity\<close> is true
  for every existing server whatever its counters, and \<open>reserveServerCapacity\<close> returns
  true and leaves the table as it was. Server selection applies the capacity filter and
  the utilisation order to every type: the result is \<open>null\<close> exactly when no server that
  is not excluded has the required free capacity, otherwise a server with the required
  free capacity of least utilisation (ties: greatest free capacity), and it is the same
  for all types other than 1.
\<close>

theorem other_types_capacity_helpers:
  assumes "typeAnalyticId \<noteq> 1"
  shows "let required = (case requiredCapacity options of None \<Rightarrow> 1 | Some r \<Rightarrow> r);
             excluded = (case excludeServerIds options of None \<Rightarrow> [] | Some e \<Rightarrow> e);
             withCapacity =
               {s \<in> set (getServerCapacityInfo rows).
                  id_server s \<notin> set excluded \<and> required \<le> availableCapacity s}
         in (checkServerCapacity rows serverId typeAnalyticId required_arg
               \<longleftrightarrow> findUnique_id rows serverId \<noteq> None)
          \<and> reserveServerCapacity rows serverId typeAnalyticId capacity_arg = (True, rows)
          \<and> (selectBestServer rows typeAnalyticId options = None \<longleftrightarrow> withCapacity = {})
          \<and> (\<forall>r. selectBestServer rows typeAnalyticId options = Some r \<longrightarrow>
                 r \<in> withCapacity
               \<and> (\<forall>s \<in> withCapacity.
                      utilizationPercentage r < utilizationPercentage s
                    \<or> (utilizationPercentage r = utilizationPercentage s
                       \<and> availableCapacity s \<le> availableCapacity r)))
          \<and> (\<forall>t. t \<noteq> 1 \<longrightarrow>
                 selectBestServer rows t options = selectBestServer rows typeAnalyticId options)"
proof -
  define required where "required = (case requiredCapacity options of None \<Rightarrow> 1 | Some r \<Rightarrow> r)"
  define excluded where "excluded = (case excludeServerIds options of None \<Rightarrow> [] | Some e \<Rightarrow> e)"
  define cs where "cs =
      filter (\<lambda>s. availableCapacity s \<ge> required)
        (filter (\<lambda>s. id_server s \<notin> set excluded) (getServerCapacityInfo rows))"
  define withCapacity where "withCapacity =
         {s \<in> set (getServerCapacityInfo rows).
            id_server s \<notin> set excluded \<and> required \<le> availableCapacity s}"
  have sel_any: "selectBestServer rows t options = first_elem (sort_by compareServers cs)"
    if "t \<noteq> 1" for t
    using that selectBestServer_eq [of rows t options]
    by (simp add: cs_def required_def excluded_def)
  have sel: "selectBestServer rows typeAnalyticId options = first_elem (sort_by compareServers cs)"
    using assms by (rule sel_any)
  have set_cs: "set cs = withCapacity"
    unfolding cs_def withCapacity_def by auto
  have chk: "checkServerCapacity rows serverId typeAnalyticId required_arg
               \<longleftrightarrow> findUnique_id rows serverId \<noteq> None"
    using assms by (simp add: checkServerCapacity_def split: option.splits)
  have res: "reserveServerCapacity rows serverId typeAnalyticId capacity_arg = (True, rows)"
    using assms by (simp add: reserveServerCapacity_def)
  have none: "selectBestServer rows typeAnalyticId options = None \<longleftrightarrow> withCapacity = {}"
    unfolding sel first_elem_None_iff sort_by_Nil_iff set_cs [symmetric] by simp
  have some: "\<forall>r. selectBestServer rows typeAnalyticId options = Some r \<longrightarrow>
           r \<in> withCapacity
         \<and> (\<forall>s \<in> withCapacity.
                utilizationPercentage r < utilizationPercentage s
              \<or> (utilizationPercentage r = utilizationPercentage s
                 \<and> availableCapacity s \<le> availableCapacity r))"
    unfolding sel set_cs [symmetric]
    using first_elem_sort_by_least [of cs] compareServers_le_iff by blast
  have same: "\<forall>t. t \<noteq> 1 \<longrightarrow>
                 selectBestServer rows t options = selectBestServer rows typeAnalyticId options"
    using sel_any sel by simp
  show ?thesis
    unfolding Let_def required_def [symmetric] excluded_def [symmetric] withCapacity_def [symmetric]
    using chk res none some same by blast
qed

theorem other_types_capacity_helpers_witness:
  "(2::int) \<noteq> 1
   \<and> checkServerCapacity
       [\<lparr>id_server = 1, ip = ''10.0.0.1'', description = None,
          max_activity_monitoring = 1, cur_activity_monitoring = 1\<rparr>] 1 2 None
   \<and> reserveServerCapacity
       [\<lparr>id_server = 1, ip = ''10.0.0.1'', description = None,
          max_activity_monitoring = 1, cur_activity_monitoring = 1\<rparr>] 1 2 None
     = (True, [\<lparr>id_server = 1, ip = ''10.0.0.1'', description = None,
          max_activity_monitoring = 1, cur_activity_monitoring = 1\<rparr>])
   \<and> selectBestServer
       [\<lparr>id_server = 1, ip = ''10.0.0.1'', description = None,
          max_activity_monitoring = 1, cur_activity_monitoring = 1\<rparr>,
        \<lparr>id_server = 2, ip = ''10.0.0.2'', description = None,
          max_activity_monitoring = 4, cur_activity_monitoring = 1\<rparr>] 2
       \<lparr>requiredCapacity = None, preferredUtilizationThreshold = None,
          excludeServerIds = None\<rparr>
     = Some \<lparr>id_server = 2, ip = ''10.0.0.2'', description = None,
          max_activity_monitoring = 4, cur_activity_monitoring = 1,
          availableCapacity = 3, utilizationPercentage = 25\<rparr>"
  using other_types_capacity_helpers
    [of 2 "\<lparr>requiredCapacity = None, preferredUtilizationThreshold = None,
          excludeServerIds = None\<rparr>"
        "[\<lparr>id_server = 1, ip = ''10.0.0.1'', description = None,
          max_activity_monitoring = 1, cur_activity_monitoring = 1\<rparr>,
          \<lparr>id_server = 2, ip = ''10.0.0.2'', description = None,
          max_activity_monitoring = 4, cur_activity_monitoring = 1\<rparr>]" 1 None None]
  by (simp add: selectBestServer_def getServerCapacityInfo_def capacityInfo_def
        compareServers_def server.defs ServerCapacityInfo.defs Let_def
        checkServerCapacity_def reserveServerCapacity_def findUnique_id_def)

text \<open>
  Claim C9 as stated fails in server selection: for analytic type 2 a full server passes
  \<open>checkServerCapacity\<close> but is not selected, and the same server is selected once its
  counter is 0.
\<close>

theorem other_types_selection_counterexample:
  "checkServerCapacity
       [\<lparr>id_server = 1, ip = ''10.0.0.1'', description = None,
          max_activity_monitoring = 1, cur_activity_monitoring = 1\<rparr>] 1 2 None
   \<and> selectBestServer
       [\<lparr>id_server = 1, ip = ''10.0.0.1'', description = None,
          max_activity_monitoring = 1, cur_activity_monitoring = 1\<rparr>] 2
       \<lparr>requiredCapacity = None, preferredUtilizationThreshold = None,
          excludeServerIds = None\<rparr> = None
   \<and> selectBestServer
       [\<lparr>id_server = 1, ip = ''10.0.0.1'', description = None,
          max_activity_monitoring = 1, cur_activity_monitoring = 0\<rparr>] 2
       \<lparr>requiredCapacity = None, preferredUtilizationThreshold = None,
          excludeServerIds = None\<rparr>
     = Some \<lparr>id_server = 1, ip = ''10.0.0.1'', description = None,
          max_activity_monitoring = 1, cur_activity_monitoring = 0,
          availableCapacity = 1, utilizationPercentage = 0\<rparr>"
  by (simp add: selectBestServer_def getServerCapacityInfo_def capacityInfo_def
        compareServers_def server.defs ServerCapacityInfo.defs Let_def
        checkServerCapacity_def findUnique_id_def)

section \<open>Pagination of listings\<close>

text \<open>
  Claim C1, as amended. For every request handled by \<open>handlePagination\<close>, let \<open>p\<close> and
  \<open>l\<close> be the page and the limit of \<open>getPaginationParams\<close>: \<open>p\<close> is the greater of 1 and
  the parsed page (1 when it is \<open>NaN\<close> or 0), \<open>l\<close> is the greater of 1 and the lesser of
  the parsed limit (\<open>defaultLimit\<close> when it is \<open>NaN\<close> or 0) and \<open>maxLimit\<close>, and the skip is
  \<open>(p - 1) * l\<close>. So both are at least 1, \<open>p\<close> is the requested page when that is at
  least 1, and \<open>l\<close> is the requested limit when that lies between 1 and \<open>maxLimit\<close>. The
  data function is called with these parameters, so a \<open>findMany\<close> with \<open>take: limit\<close>
  returns at most \<open>l\<close> items; and the metadata has \<open>totalPages = ceil (total / l)\<close>,
  \<open>hasNext\<close> exactly when \<open>p * l < total\<close>, and \<open>hasPrev\<close> exactly when \<open>p > 1\<close>.
\<close>

theorem handlePagination_effective_page_limit:
  "let p = getPaginationParams req options;
       r = handlePagination req countFn dataFn options;
       maxLimit_v = (case maxLimit options of None \<Rightarrow> 100 | Some m \<Rightarrow> m);
       defaultLimit_v = (case defaultLimit options of None \<Rightarrow> 10 | Some d \<Rightarrow> d)
   in page p = (case parseInt (query req ''page'') of
                  None \<Rightarrow> 1
                | Some n \<Rightarrow> if n = 0 then 1 else max 1 n)
    \<and> limit p = max 1 (min (case parseInt (query req ''limit'') of
                                None \<Rightarrow> defaultLimit_v
                              | Some n \<Rightarrow> if n = 0 then defaultLimit_v else n)
                             maxLimit_v)
    \<and> skip p = (page p - 1) * limit p
    \<and> 1 \<le> page p \<and> 1 \<le> limit p
    \<and> (\<forall>pq. parseInt (query req ''page'') = Some pq \<and> 1 \<le> pq \<longrightarrow> page p = pq)
    \<and> (\<forall>lq. parseInt (query req ''limit'') = Some lq \<and> 1 \<le> lq \<and> lq \<le> maxLimit_v
            \<longrightarrow> limit p = lq)
    \<and> data r = dataFn p
    \<and> (\<forall>rows :: 'b list. int (length (findMany_skip_take rows p)) \<le> limit p)
    \<and> page_meta (pagination r) = page p
    \<and> limit_meta (pagination r) = limit p
    \<and> total (pagination r) = countFn ()
    \<and> totalPages (pagination r) = Finite \<lceil>(of_int (countFn ()) :: rat) / of_int (limit p)\<rceil>
    \<and> (hasNext (pagination r) \<longleftrightarrow> page p * limit p < countFn ())
    \<and> (hasPrev (pagination r) \<longleftrightarrow> 1 < page p)"
proof -
  define p where "p = getPaginationParams req options"
  define r where "r = handlePagination req countFn dataFn options"
  define maxLimit_v where "maxLimit_v = (case maxLimit options of None \<Rightarrow> 100 | Some m \<Rightarrow> m)"
  define defaultLimit_v where
    "defaultLimit_v = (case defaultLimit options of None \<Rightarrow> 10 | Some d \<Rightarrow> d)"
  have page_eq: "page p = (case parseInt (query req ''page'') of
                  None \<Rightarrow> 1
                | Some n \<Rightarrow> if n = 0 then 1 else max 1 n)"
    unfolding p_def
    by (simp add: getPaginationParams_def Let_def or_num_def split: option.splits)
  have limit_eq: "limit p = max 1 (min (case parseInt (query req ''limit'') of
                                None \<Rightarrow> defaultLimit_v
                              | Some n \<Rightarrow> if n = 0 then defaultLimit_v else n)
                             maxLimit_v)"
    unfolding p_def maxLimit_v_def defaultLimit_v_def
    by (simp add: getPaginationParams_def Let_def or_num_def split: option.splits)
  have skip_eq: "skip p = (page p - 1) * limit p"
    unfolding p_def by (rule getPaginationParams_bounds)
  have pg: "1 \<le> page p" and lm: "1 \<le> limit p"
    unfolding p_def by (rule getPaginationParams_bounds)+
  have pq: "\<forall>pq. parseInt (query req ''page'') = Some pq \<and> 1 \<le> pq \<longrightarrow> page p = pq"
    unfolding p_def by (simp add: getPaginationParams_def Let_def or_num_def)
  have lq: "\<forall>lq. parseInt (query req ''limit'') = Some lq \<and> 1 \<le> lq \<and> lq \<le> maxLimit_v
            \<longrightarrow> limit p = lq"
    unfolding p_def maxLimit_v_def
    by (auto simp: getPaginationParams_def Let_def or_num_def)
  have r_eq: "r = \<lparr>success = True, data = dataFn p,
                   pagination = createPaginationMeta (page p) (limit p) (countFn ())\<rparr>"
    unfolding r_def p_def handlePagination_def createPaginatedResponse_def Let_def by simp
  have len: "\<forall>rows :: 'b list. int (length (findMany_skip_take rows p)) \<le> limit p"
    by (simp add: length_findMany_skip_take lm)
  have tp: "totalPages (pagination r) = Finite \<lceil>(of_int (countFn ()) :: rat) / of_int (limit p)\<rceil>"
    using lm by (simp add: r_eq createPaginationMeta_def ceil_quotient_def Let_def)
  have hn: "hasNext (pagination r) \<longleftrightarrow> page p * limit p < countFn ()"
    using lm less_ceiling_quotient [of "limit p" "page p" "countFn ()"]
    by (simp add: r_eq createPaginationMeta_def ceil_quotient_def Let_def)
  have rest: "data r = dataFn p" "page_meta (pagination r) = page p"
    "limit_meta (pagination r) = limit p" "total (pagination r) = countFn ()"
    "hasPrev (pagination r) \<longleftrightarrow> 1 < page p"
    by (simp_all add: r_eq createPaginationMeta_def Let_def)
  show ?thesis
    unfolding Let_def p_def [symmetric] r_def [symmetric] maxLimit_v_def [symmetric]
      defaultLimit_v_def [symmetric]
    using page_eq limit_eq skip_eq pg lm pq lq len tp hn rest by blast
qed

theorem handlePagination_effective_page_limit_witness:
  "parseInt (Some ''2'') = Some 2 \<and> parseInt (Some ''5'') = Some 5
   \<and> handlePagination
       \<lparr>query = [''page'' \<mapsto> ''2'', ''limit'' \<mapsto> ''5''], cookies = Map.empty,
          headers = Map.empty, params = Map.empty, user = None, securityToken = None\<rparr>
       (\<lambda>u. 12)
       (findMany_skip_take [1, 2, 3, 4, 5, 6, 7, 8, 9, 10, 11, 12 :: int])
       \<lparr>maxLimit = None, defaultLimit = None\<rparr>
     = \<lparr>success = True, data = [6, 7, 8, 9, 10],
        pagination = \<lparr>page_meta = 2, limit_meta = 5, total = 12, totalPages = Finite 3,
                       hasNext = True, hasPrev = True\<rparr>\<rparr>"
  using handlePagination_effective_page_limit
    [of "\<lparr>query = [''page'' \<mapsto> ''2'', ''limit'' \<mapsto> ''5''], cookies = Map.empty,
          headers = Map.empty, params = Map.empty, user = None, securityToken = None\<rparr>"
        "\<lparr>maxLimit = None, defaultLimit = None\<rparr>"
        "\<lambda>u. 12"
        "findMany_skip_take [1, 2, 3, 4, 5, 6, 7, 8, 9, 10, 11, 12 :: int]"]
  by (simp add: handlePagination_def getPaginationParams_def createPaginationMeta_def
        createPaginatedResponse_def findMany_skip_take_def or_num_def ceil_quotient_div
        parseInt_eval)

text \<open>
  Claim C1 as stated fails for the page and limit of the request: with \<open>limit=100\<close> and a
  maximum of 50 (the listing of cameras) the data function is called with limit 50, and
  over 80 rows \<open>hasNext\<close> is true although \<open>1 * 100 < 80\<close> is false.
\<close>

theorem handlePagination_limit_above_maximum_counterexample:
  "limit (getPaginationParams
       \<lparr>query = [''page'' \<mapsto> ''1'', ''limit'' \<mapsto> ''100''], cookies = Map.empty,
          headers = Map.empty, params = Map.empty, user = None, securityToken = None\<rparr>
       \<lparr>maxLimit = Some 50, defaultLimit = Some 10\<rparr>) = 50
   \<and> hasNext (pagination (handlePagination
       \<lparr>query = [''page'' \<mapsto> ''1'', ''limit'' \<mapsto> ''100''], cookies = Map.empty,
          headers = Map.empty, params = Map.empty, user = None, securityToken = None\<rparr>
       (\<lambda>u. 80)
       (findMany_skip_take ([] :: int list))
       \<lparr>maxLimit = Some 50, defaultLimit = Some 10\<rparr>))
   \<and> \<not> ((1::int) * 100 < 80)"
  by (simp add: handlePagination_def getPaginationParams_def createPaginationMeta_def
        createPaginatedResponse_def findMany_skip_take_def or_num_def ceil_quotient_div
        parseInt_eval)

section \<open>Sorting of listings\<close>

text \<open>
  Claim C7, as amended. When the query parameter \<open>sortBy\<close> is absent or not in the
  allow-list, \<open>handleSorting\<close> orders by the configured default field; when it is a
  non-empty string of the allow-list, by the requested field. The direction is decided on
  its own: the requested \<open>sortOrder\<close> when that is \<open>asc\<close> or \<open>desc\<close>, the configured default
  order otherwise.
\<close>

theorem handleSorting_field_and_order:
  "let allowed = (case allowedFields options of
                    None \<Rightarrow> [''created_at'', ''updated_at'', ''name'']
                  | Some a \<Rightarrow> a);
       dfield = (case defaultField options of None \<Rightarrow> ''created_at'' | Some f \<Rightarrow> f);
       dorder = (case defaultOrder options of None \<Rightarrow> desc | Some d \<Rightarrow> d);
       sortBy = query req ''sortBy'';
       sortOrder_q = query req ''sortOrder'';
       r = handleSorting req options
   in ((case sortBy of None \<Rightarrow> True | Some s \<Rightarrow> s \<notin> set allowed) \<longrightarrow> fst r = dfield)
    \<and> (\<forall>s. sortBy = Some s \<and> s \<noteq> [] \<and> s \<in> set allowed \<longrightarrow> fst r = s)
    \<and> (sortOrder_q = Some ''asc'' \<longrightarrow> snd r = asc)
    \<and> (sortOrder_q = Some ''desc'' \<longrightarrow> snd r = desc)
    \<and> (sortOrder_q \<noteq> Some ''asc'' \<and> sortOrder_q \<noteq> Some ''desc'' \<longrightarrow> snd r = dorder)"
  by (auto simp: handleSorting_def getSortParams_def buildOrderByClause_def Let_def
           split: option.splits)

theorem handleSorting_field_and_order_witness:
  "''password'' \<notin> set [''created_at'', ''updated_at'', ''ip'']
   \<and> handleSorting
       \<lparr>query = [''sortBy'' \<mapsto> ''password''], cookies = Map.empty,
          headers = Map.empty, params = Map.empty, user = None, securityToken = None\<rparr>
       \<lparr>allowedFields = Some [''created_at'', ''updated_at'', ''ip''],
          defaultField = Some ''created_at'', defaultOrder = Some desc\<rparr>
     = (''created_at'', desc)
   \<and> handleSorting
       \<lparr>query = [''sortBy'' \<mapsto> ''ip'', ''sortOrder'' \<mapsto> ''asc''], cookies = Map.empty,
          headers = Map.empty, params = Map.empty, user = None, securityToken = None\<rparr>
       \<lparr>allowedFields = Some [''created_at'', ''updated_at'', ''ip''],
          defaultField = Some ''created_at'', defaultOrder = Some desc\<rparr>
     = (''ip'', asc)"
  using handleSorting_field_and_order
    [of "\<lparr>allowedFields = Some [''created_at'', ''updated_at'', ''ip''],
          defaultField = Some ''created_at'', defaultOrder = Some desc\<rparr>"
        "\<lparr>query = [''sortBy'' \<mapsto> ''password''], cookies = Map.empty,
          headers = Map.empty, params = Map.empty, user = None, securityToken = None\<rparr>"]
    handleSorting_field_and_order
    [of "\<lparr>allowedFields = Some [''created_at'', ''updated_at'', ''ip''],
          defaultField = Some ''created_at'', defaultOrder = Some desc\<rparr>"
        "\<lparr>query = [''sortBy'' \<mapsto> ''ip'', ''sortOrder'' \<mapsto> ''asc''], cookies = Map.empty,
          headers = Map.empty, params = Map.empty, user = None, securityToken = None\<rparr>"]
  by (simp add: handleSorting_def getSortParams_def buildOrderByClause_def Let_def)

text \<open>
  Claim C7 as stated fails for the direction: with a \<open>sortBy\<close> outside the allow-list and
  \<open>sortOrder=asc\<close> the clause is ascending, not the configured default \<open>desc\<close>.
\<close>

theorem handleSorting_default_order_counterexample:
  "''password'' \<notin> set [''created_at'', ''updated_at'', ''ip'']
   \<and> handleSorting
       \<lparr>query = [''sortBy'' \<mapsto> ''password'', ''sortOrder'' \<mapsto> ''asc''], cookies = Map.empty,
          headers = Map.empty, params = Map.empty, user = None, securityToken = None\<rparr>
       \<lparr>allowedFields = Some [''created_at'', ''updated_at'', ''ip''],
          defaultField = Some ''created_at'', defaultOrder = Some desc\<rparr>
     = (''created_at'', asc)
   \<and> asc \<noteq> desc"
  by (simp add: handleSorting_def getSortParams_def buildOrderByClause_def Let_def)

section \<open>Search in listings\<close>

text \<open>
  Claim C8. When the query parameter \<open>search\<close> is absent, empty or a sequence of
  white-space characters only, \<open>handleSearch\<close> returns the empty where-clause, the same
  clause as for the request without any \<open>search\<close> parameter.
\<close>

theorem handleSearch_blank_term:
  assumes "case query req ''search'' of
             None \<Rightarrow> True
           | Some s \<Rightarrow> \<exists>ws. set ws \<subseteq> set whitespace_encodings \<and> s = concat ws"
  shows "handleSearch req options = EmptyWhere
       \<and> handleSearch req options
           = handleSearch (req\<lparr>query := (query req)(''search'' := None)\<rparr>) options"
proof -
  have a: "search (getSearchParams req options) = None"
    using assms by (rule getSearchParams_blank)
  have b: "search (getSearchParams (req\<lparr>query := (query req)(''search'' := None)\<rparr>) options)
             = None"
    by (rule getSearchParams_blank) simp
  show ?thesis
    by (simp add: handleSearch_def buildSearchWhereClause_def Let_def a b)
qed

theorem handleSearch_blank_term_witness:
  "[CHR 0x20, CHR 0xC2, CHR 0xA0, CHR 0x09]
     = concat [[CHR 0x20], [CHR 0xC2, CHR 0xA0], [CHR 0x09]]
   \<and> handleSearch
       \<lparr>query = [''search'' \<mapsto> [CHR 0x20, CHR 0xC2, CHR 0xA0, CHR 0x09]], cookies = Map.empty,
          headers = Map.empty, params = Map.empty, user = None, securityToken = None\<rparr>
       \<lparr>searchFields = Some [''ip'', ''description''], searchMode = Some contains\<rparr>
     = EmptyWhere
   \<and> handleSearch
       \<lparr>query = [''search'' \<mapsto> '' 10.0 ''], cookies = Map.empty,
          headers = Map.empty, params = Map.empty, user = None, securityToken = None\<rparr>
       \<lparr>searchFields = Some [''ip'', ''description''], searchMode = Some contains\<rparr>
     = OrWhere [FieldWhere ''ip'' contains ''10.0'', FieldWhere ''description'' contains ''10.0'']"
  using handleSearch_blank_term
    [of "\<lparr>query = [''search'' \<mapsto> [CHR 0x20, CHR 0xC2, CHR 0xA0, CHR 0x09]], cookies = Map.empty,
          headers = Map.empty, params = Map.empty, user = None, securityToken = None\<rparr>"
        "\<lparr>searchFields = Some [''ip'', ''description''], searchMode = Some contains\<rparr>"]
  by (simp add: handleSearch_def buildSearchWhereClause_def
        getSearchParams_def or_str_def falsy_def trim_eval Let_def)

section \<open>Creating and deleting servers\<close>




text \<open>
  Claim C5. A delete request for an existing server with at least one attached
  \<open>primary_analytics\<close> row is answered with status 400 and the database is as before;
  with no attached row the status is 200 and the server row is removed; and the
  database changes only when the count of attached rows is zero.
\<close>

theorem deleteServer_blocked_by_analytics:
  "(\<forall>i s. parseInt (params req ''id'') = Some i
         \<and> findUnique_id (servers db) i = Some s
         \<and> count_primary_analytics db i \<ge> 1 \<longrightarrow>
       status (fst (deleteServer db req)) = 400 \<and> snd (deleteServer db req) = db)
   \<and> (\<forall>i s. parseInt (params req ''id'') = Some i
         \<and> findUnique_id (servers db) i = Some s
         \<and> count_primary_analytics db i = 0 \<longrightarrow>
       status (fst (deleteServer db req)) = 200
     \<and> snd (deleteServer db req)
         = db\<lparr>servers := filter (\<lambda>x. id_server x \<noteq> i) (servers db)\<rparr>)
   \<and> (snd (deleteServer db req) \<noteq> db \<longrightarrow>
       (\<exists>i. parseInt (params req ''id'') = Some i \<and> count_primary_analytics db i = 0))"
  by (auto simp: deleteServer_def split: option.splits)

theorem deleteServer_blocked_by_analytics_witness:
  "parseInt (Some ''1'') = Some 1
   \<and> count_primary_analytics
       \<lparr>servers = [\<lparr>id_server = 1, ip = ''10.0.0.5'', description = None,
                      max_activity_monitoring = 5, cur_activity_monitoring = 1\<rparr>],
          primary_analytics = [\<lparr>id_analytic = 7, servers_id = Some 1\<rparr>],
          servers_auto_increment = 2\<rparr> 1 = 1
   \<and> deleteServer
       \<lparr>servers = [\<lparr>id_server = 1, ip = ''10.0.0.5'', description = None,
                      max_activity_monitoring = 5, cur_activity_monitoring = 1\<rparr>],
          primary_analytics = [\<lparr>id_analytic = 7, servers_id = Some 1\<rparr>],
          servers_auto_increment = 2\<rparr>
       \<lparr>query = Map.empty, cookies = Map.empty, headers = Map.empty,
          params = [''id'' \<mapsto> ''1''], user = None, securityToken = None\<rparr>
     = (Reply 400 False
          ''Cannot delete server with active primary analytics. Please remove all related analytics first.''
          None None,
        \<lparr>servers = [\<lparr>id_server = 1, ip = ''10.0.0.5'', description = None,
                      max_activity_monitoring = 5, cur_activity_monitoring = 1\<rparr>],
          primary_analytics = [\<lparr>id_analytic = 7, servers_id = Some 1\<rparr>],
          servers_auto_increment = 2\<rparr>)
   \<and> deleteServer
       \<lparr>servers = [\<lparr>id_server = 1, ip = ''10.0.0.5'', description = None,
                      max_activity_monitoring = 5, cur_activity_monitoring = 1\<rparr>],
          primary_analytics = [\<lparr>id_analytic = 7, servers_id = None\<rparr>],
          servers_auto_increment = 2\<rparr>
       \<lparr>query = Map.empty, cookies = Map.empty, headers = Map.empty,
          params = [''id'' \<mapsto> ''1''], user = None, securityToken = None\<rparr>
     = (Reply 200 True ''Server deleted successfully'' None None,
        \<lparr>servers = [],
          primary_analytics = [\<lparr>id_analytic = 7, servers_id = None\<rparr>],
          servers_auto_increment = 2\<rparr>)"
  using deleteServer_blocked_by_analytics
    [of "\<lparr>query = Map.empty, cookies = Map.empty, headers = Map.empty,
          params = [''id'' \<mapsto> ''1''], user = None, securityToken = None\<rparr>"
        "\<lparr>servers = [\<lparr>id_server = 1, ip = ''10.0.0.5'', description = None,
                      max_activity_monitoring = 5, cur_activity_monitoring = 1\<rparr>],
          primary_analytics = [\<lparr>id_analytic = 7, servers_id = Some 1\<rparr>],
          servers_auto_increment = 2\<rparr>"]
  by (simp add: deleteServer_def findUnique_id_def count_primary_analytics_def
        parseInt_eval)

section \<open>Rejected requests\<close>

text \<open>
  Claim C6. A request without an \<open>auth_token\<close> cookie is answered by \<open>authenticateToken\<close>
  with status 401 and \<open>next\<close> is not called. A request whose security token (the first
  non-empty of the headers \<open>x-security-token\<close>, \<open>x-api-token\<close>, \<open>authorization\<close> without
  \<open>Bearer\<close>, \<open>x-access-token\<close>) is not in the list of \<open>GENERAL_TOKENS\<close> is answered by
  \<open>requireGeneralToken\<close> with status 403 and \<open>next\<close> is not called.
\<close>

theorem missing_or_unknown_token_rejected:
  "let token = or_str (or_str (or_str (headers req ''x-security-token'')
                                     (headers req ''x-api-token''))
                             (map_option (replace_first ''Bearer '' [])
                                         (headers req ''authorization'')))
                     (headers req ''x-access-token'')
   in (falsy (cookies req ''auth_token'') \<longrightarrow>
         authenticateToken jwt_verify env users req
           = Responded (Reply 401 False ''Access token is required'' None None)
       \<and> (\<forall>req'. authenticateToken jwt_verify env users req \<noteq> Next req'))
    \<and> (\<forall>t. token = Some t \<and> t \<noteq> [] \<and> t \<notin> set (env_tokens (GENERAL_TOKENS env)) \<longrightarrow>
           requireGeneralToken env req
             = Responded (Reply 403 False ''Invalid security token''
                            (Some ''INVALID_SECURITY_TOKEN'') None)
         \<and> (\<forall>req'. requireGeneralToken env req \<noteq> Next req'))"
proof -
  have a: "authenticateToken jwt_verify env users req
           = Responded (Reply 401 False ''Access token is required'' None None)"
    if "falsy (cookies req ''auth_token'')"
    using that by (auto simp: authenticateToken_def falsy_def split: option.splits)
  have b: "requireGeneralToken env req
             = Responded (Reply 403 False ''Invalid security token''
                            (Some ''INVALID_SECURITY_TOKEN'') None)"
    if "or_str (or_str (or_str (headers req ''x-security-token'')
                                     (headers req ''x-api-token''))
                             (map_option (replace_first ''Bearer '' [])
                                         (headers req ''authorization'')))
                     (headers req ''x-access-token'') = Some t"
       "t \<noteq> []" "t \<notin> set (env_tokens (GENERAL_TOKENS env))" for t
    using that
    by (simp add: requireGeneralToken_def requireSecurityToken_def Let_def
          verifySecurityToken_general)
  show ?thesis
    unfolding Let_def using a b by simp
qed

theorem missing_or_unknown_token_rejected_witness:
  "falsy (Map.empty ''auth_token'')
   \<and> authenticateToken (\<lambda>t s. None)
       \<lparr>JWT_SECRET = None, REGISTRATION_TOKENS = None, ADMIN_TOKENS = Some ''root-token'',
          SENSITIVE_TOKENS = None, GENERAL_TOKENS = Some ''tok1, tok2''\<rparr>
       []
       \<lparr>query = Map.empty, cookies = Map.empty,
          headers = [''authorization'' \<mapsto> ''Bearer root-token''], params = Map.empty,
          user = None, securityToken = None\<rparr>
     = Responded (Reply 401 False ''Access token is required'' None None)
   \<and> ''root-token'' \<notin> set (env_tokens (Some ''tok1, tok2''))
   \<and> requireGeneralToken
       \<lparr>JWT_SECRET = None, REGISTRATION_TOKENS = None, ADMIN_TOKENS = Some ''root-token'',
          SENSITIVE_TOKENS = None, GENERAL_TOKENS = Some ''tok1, tok2''\<rparr>
       \<lparr>query = Map.empty, cookies = Map.empty,
          headers = [''authorization'' \<mapsto> ''Bearer root-token''], params = Map.empty,
          user = None, securityToken = None\<rparr>
     = Responded (Reply 403 False ''Invalid security token''
                    (Some ''INVALID_SECURITY_TOKEN'') None)
   \<and> (case requireGeneralToken
       \<lparr>JWT_SECRET = None, REGISTRATION_TOKENS = None, ADMIN_TOKENS = Some ''root-token'',
          SENSITIVE_TOKENS = None, GENERAL_TOKENS = Some ''tok1, tok2''\<rparr>
       \<lparr>query = Map.empty, cookies = Map.empty,
          headers = [''x-api-token'' \<mapsto> ''tok2''], params = Map.empty,
          user = None, securityToken = None\<rparr>
      of Next r \<Rightarrow> securityToken r | Responded a \<Rightarrow> None)
     = Some (''tok2***'', Some ''general'')"
  using missing_or_unknown_token_rejected
    [of "\<lparr>query = Map.empty, cookies = Map.empty,
          headers = [''authorization'' \<mapsto> ''Bearer root-token''], params = Map.empty,
          user = None, securityToken = None\<rparr>"
        "\<lambda>t s. None"
        "\<lparr>JWT_SECRET = None, REGISTRATION_TOKENS = None, ADMIN_TOKENS = Some ''root-token'',
          SENSITIVE_TOKENS = None, GENERAL_TOKENS = Some ''tok1, tok2''\<rparr>"
        "[]"]
  by (simp add: falsy_def or_str_def authenticateToken_def requireGeneralToken_def
        requireSecurityToken_def verifySecurityToken_def getStaticTokens_def env_tokens_def
        trim_eval Let_def)

end
